theory Spec2Isabelle
  imports Complex_Main "HOL-Library.Sublist"
begin

section \<open>Exceptions\<close>

text \<open>
  The exceptions the repository raises or lets through. A computation that can raise
  returns \<open>py_exception + 'a\<close>, with \<open>Inl\<close> for the raised exception.
  \<open>KeyboardInterrupt\<close>, \<open>SystemExit\<close> and \<open>CancelledError\<close> derive from Python's
  \<^verbatim>\<open>BaseException\<close> and not from \<^verbatim>\<open>Exception\<close>, so \<^verbatim>\<open>except Exception\<close> in
  \<^verbatim>\<open>utils/retry_logic.py\<close> does not catch them; \<open>is_Exception\<close> tells the two kinds
  apart.

  \<open>RuntimeError retries e\<close> is the error of \<^verbatim>\<open>retry_request\<close>, whose message is
  \<^verbatim>\<open>f"API request failed after {retries} retries: {e}"\<close>: it is kept structured, as the
  retry count and the exception it was raised from, rather than rendered as text.
  \<open>APIError\<close> stands for whatever a vendor client raises.
\<close>

datatype py_exception =
    ValueError string
  | EnvironmentError string
  | NotImplementedError string
  | TypeError string
  | IndexError string
  | KeyError string
  | FileNotFoundError string
  | OverflowError string
  | APIError string
  | RuntimeError int py_exception
  | KeyboardInterrupt
  | SystemExit
  | CancelledError

fun is_Exception :: "py_exception \<Rightarrow> bool" where
  "is_Exception KeyboardInterrupt = False"
| "is_Exception SystemExit = False"
| "is_Exception CancelledError = False"
| "is_Exception e = True"

section \<open>Floats\<close>

text \<open>
  A Python float, or an integer passed where a float is expected: a real number, one of
  the two infinities, or NaN. \<open>lt\<close> is Python's \<^verbatim>\<open><\<close>: every comparison with NaN is
  false. Equality of the model is equality of the values where both are numbers; NaN
  stands for one NaN object, which a dictionary finds again by identity.
\<close>

datatype py_float = Finite real | PosInf | NegInf | NaN

fun lt :: "py_float \<Rightarrow> py_float \<Rightarrow> bool" where
  "lt NaN b = False"
| "lt a NaN = False"
| "lt (Finite x) (Finite y) = (x < y)"
| "lt (Finite x) PosInf = True"
| "lt (Finite x) NegInf = False"
| "lt PosInf b = False"
| "lt NegInf NegInf = False"
| "lt NegInf b = True"

text \<open>
  \<^verbatim>\<open>time.sleep(secs)\<close> in CPython on a 64-bit platform: NaN is refused with a
  \<^verbatim>\<open>ValueError\<close>, a duration that does not fit 64 bits of nanoseconds with an
  \<^verbatim>\<open>OverflowError\<close>, and a negative one with a \<^verbatim>\<open>ValueError\<close>; otherwise the call
  returns after the wait.
\<close>

definition sleep :: "py_float \<Rightarrow> py_exception + unit" where
  "sleep secs =
     (case secs of
        NaN \<Rightarrow> Inl (ValueError ''Invalid value NaN (not a number)'')
      | PosInf \<Rightarrow> Inl (OverflowError ''timestamp too large to convert to C _PyTime_t'')
      | NegInf \<Rightarrow> Inl (OverflowError ''timestamp too large to convert to C _PyTime_t'')
      | Finite x \<Rightarrow>
          if x * 10 ^ 9 < - (2 ^ 63) \<or> 2 ^ 63 - 1 < x * 10 ^ 9
          then Inl (OverflowError ''timestamp too large to convert to C _PyTime_t'')
          else if x < 0 then Inl (ValueError ''sleep length must be non-negative'')
          else Inr ())"

section \<open>utils/retry\_logic.py\<close>

text \<open>
  What \<^verbatim>\<open>retry_request\<close> does besides returning: it prints, it calls \<^verbatim>\<open>func\<close>, it
  sleeps. The trace lists these in the order they happen.
\<close>

datatype event = Print string | Call | Sleep py_float

text \<open>
  \<^verbatim>\<open>func\<close> takes no argument and may read and change the world, so it is a function from
  the world to its outcome and the world it leaves behind.

  \<open>retry_loop\<close> is the \<^verbatim>\<open>for attempt in range(retries)\<close> loop, entered at \<open>attempt\<close>.
  When the range is used up the loop ends and the function returns Python's \<^verbatim>\<open>None\<close>:
  the result \<open>Inr None\<close>, where \<open>Inr (Some v)\<close> is \<^verbatim>\<open>return func()\<close>. An exception
  of \<^verbatim>\<open>func\<close> that is not an \<^verbatim>\<open>Exception\<close> passes the \<^verbatim>\<open>except\<close> clause and leaves
  the function as it is. \<^verbatim>\<open>sleep(wait_time)\<close> is called inside the handler, so an
  exception it raises leaves the function too, and the trace gets a \<open>Sleep\<close> only for a
  wait that took place.
\<close>

function retry_loop ::
  "('w \<Rightarrow> (py_exception + 'a) \<times> 'w) \<Rightarrow> int \<Rightarrow> py_float \<Rightarrow> int \<Rightarrow> 'w \<Rightarrow> event list
     \<Rightarrow> (py_exception + 'a option) \<times> 'w \<times> event list" where
  "retry_loop func retries wait_time attempt w tr =
     (if attempt < retries then
        (case func w of
           (Inr v, w') \<Rightarrow> (Inr (Some v), w', tr @ [Call])
         | (Inl e, w') \<Rightarrow>
             if is_Exception e then
               (if attempt = retries - 1
                then (Inl (RuntimeError retries e), w', tr @ [Call])
                else (case sleep wait_time of
                        Inl raised \<Rightarrow> (Inl raised, w', tr @ [Call])
                      | Inr _ \<Rightarrow>
                          retry_loop func retries wait_time (attempt + 1) w'
                            (tr @ [Call, Sleep wait_time])))
             else (Inl e, w', tr @ [Call]))
      else (Inr None, w, tr))"
  by pat_completeness auto
termination
  by (relation "measure (\<lambda>(func, retries, wait_time, attempt, w, tr). nat (retries - attempt))") auto

declare retry_loop.simps [simp del]

definition retry_request ::
  "('w \<Rightarrow> (py_exception + 'a) \<times> 'w) \<Rightarrow> int \<Rightarrow> py_float
     \<Rightarrow> 'w \<Rightarrow> (py_exception + 'a option) \<times> 'w \<times> event list" where
  "retry_request func retries wait_time w = retry_loop func retries wait_time 0 w [Print ''!'']"

text \<open>The call \<^verbatim>\<open>retry_request(func)\<close>, with the defaults \<^verbatim>\<open>retries=3, wait_time=0.5\<close>.\<close>

definition retry_request_default ::
  "('w \<Rightarrow> (py_exception + 'a) \<times> 'w) \<Rightarrow> 'w \<Rightarrow> (py_exception + 'a option) \<times> 'w \<times> event list" where
  "retry_request_default func w = retry_request func 3 (Finite (1 / 2)) w"

text \<open>
  Observations on a run, used to state the properties: the number of times \<^verbatim>\<open>func\<close> was
  called, the outcomes of the first \<open>n\<close> successive calls of \<^verbatim>\<open>func\<close>, and the world
  after them.
\<close>

definition invocations :: "event list \<Rightarrow> nat" where
  "invocations tr = length (filter (\<lambda>ev. ev = Call) tr)"

fun outcomes :: "('w \<Rightarrow> 'r \<times> 'w) \<Rightarrow> nat \<Rightarrow> 'w \<Rightarrow> 'r list" where
  "outcomes func 0 w = []"
| "outcomes func (Suc n) w = fst (func w) # outcomes func n (snd (func w))"

fun world_after :: "('w \<Rightarrow> 'r \<times> 'w) \<Rightarrow> nat \<Rightarrow> 'w \<Rightarrow> 'w" where
  "world_after func 0 w = w"
| "world_after func (Suc n) w = world_after func n (snd (func w))"

section \<open>utils/token\_tracker.py\<close>

text \<open>
  The persisted usage document is one JSON object. Its keys are model names, each with
  the object \<^verbatim>\<open>{"prompt_tokens": p, "completion_tokens": c}\<close> (\<open>Usage p c\<close>), and, in
  the same object, the key \<^verbatim>\<open>"overall_cost"\<close> with a number. A key of the document
  therefore holds either of the two kinds of value, and the code tells them apart only by
  the key it looks up. Costs are Python floats; they are modelled as reals, so rounding
  is left out.
\<close>

datatype json_value = Usage int int | Number real

type_synonym usage_doc = "string \<rightharpoonup> json_value"

record rate =
  prompt_token_cost :: real
  completion_token_cost :: real

text \<open>
  The class state of \<^verbatim>\<open>TokenTracker\<close>: the dictionary \<^verbatim>\<open>COST_RATES\<close>, which
  \<^verbatim>\<open>update_tokens_usage\<close> extends, and the file \<^verbatim>\<open>tokens_usage.json\<close>, \<open>None\<close> while it
  does not exist. The lock is taken on entry and released in the \<^verbatim>\<open>finally\<close> clause on
  every path; in this sequential model it is always free between two calls and is left out.
\<close>

record tracker =
  COST_RATES :: "string \<rightharpoonup> rate"
  tokens_usage_file :: "usage_doc option"

definition initial_COST_RATES :: "string \<rightharpoonup> rate" where
  "initial_COST_RATES = Map.empty
     (''gpt-4o'' \<mapsto> \<lparr>prompt_token_cost = 0.0045 / 1000, completion_token_cost = 0.0135 / 1000\<rparr>,
      ''gpt-35-turbo'' \<mapsto> \<lparr>prompt_token_cost = 0.0018 / 1000, completion_token_cost = 0.0018 / 1000\<rparr>,
      ''gpt-35-turbo-16k'' \<mapsto> \<lparr>prompt_token_cost = 0.0027 / 1000, completion_token_cost = 0.0036 / 1000\<rparr>)"

definition initial_tracker :: tracker where
  "initial_tracker = \<lparr>COST_RATES = initial_COST_RATES, tokens_usage_file = None\<rparr>"

text \<open>
  \<^verbatim>\<open>update_tokens_usage\<close>, line by line. The two \<^verbatim>\<open>+=\<close> on the model's entry raise a
  \<^verbatim>\<open>TypeError\<close> when the entry is a number and not an object (line 38), before
  \<^verbatim>\<open>COST_RATES\<close> is touched. The sum on line 47 raises a \<^verbatim>\<open>TypeError\<close> when
  \<^verbatim>\<open>tokens_usage.get("overall_cost", 0)\<close> is an object and not a number, after
  \<^verbatim>\<open>COST_RATES\<close> has got its zero entry. In both cases the file is not written.
\<close>

definition update_tokens_usage ::
  "string \<Rightarrow> int \<Rightarrow> int \<Rightarrow> 'a tracker_scheme \<Rightarrow> (py_exception + unit) \<times> 'a tracker_scheme" where
  "update_tokens_usage model_name prompt_tokens completion_tokens w =
     (let loaded = (case tokens_usage_file w of Some doc \<Rightarrow> doc | None \<Rightarrow> Map.empty);
          tokens_usage = (case loaded model_name of
                            None \<Rightarrow> loaded(model_name \<mapsto> Usage 0 0)
                          | Some _ \<Rightarrow> loaded)
      in case tokens_usage model_name of
           Some (Usage p c) \<Rightarrow>
             (let tokens_usage = tokens_usage(model_name \<mapsto> Usage (p + prompt_tokens) (c + completion_tokens));
                  rates = (case COST_RATES w model_name of
                             None \<Rightarrow> (COST_RATES w)(model_name \<mapsto>
                                        \<lparr>prompt_token_cost = 0, completion_token_cost = 0\<rparr>)
                           | Some _ \<Rightarrow> COST_RATES w);
                  r = (case rates model_name of
                         Some r \<Rightarrow> r
                       | None \<Rightarrow> \<lparr>prompt_token_cost = 0, completion_token_cost = 0\<rparr>);
                  prompt_cost = of_int prompt_tokens * prompt_token_cost r;
                  completion_cost = of_int completion_tokens * completion_token_cost r
              in case tokens_usage ''overall_cost'' of
                   Some (Usage _ _) \<Rightarrow>
                     (Inl (TypeError ''unsupported operand type(s) for +: dict and int''),
                      w\<lparr>COST_RATES := rates\<rparr>)
                 | Some (Number cost) \<Rightarrow>
                     (Inr (),
                      w\<lparr>COST_RATES := rates,
                        tokens_usage_file :=
                          Some (tokens_usage(''overall_cost'' \<mapsto> Number (cost + prompt_cost + completion_cost)))\<rparr>)
                 | None \<Rightarrow>
                     (Inr (),
                      w\<lparr>COST_RATES := rates,
                        tokens_usage_file :=
                          Some (tokens_usage(''overall_cost'' \<mapsto> Number (0 + prompt_cost + completion_cost)))\<rparr>))
         | _ \<Rightarrow> (Inl (TypeError ''object is not subscriptable''), w))"

text \<open>
  A sequence of calls for one model, each with its two increments; an exception ends
  the sequence, as it would in a caller that does not catch it.
\<close>

fun update_tokens_usage_all ::
  "string \<Rightarrow> (int \<times> int) list \<Rightarrow> 'a tracker_scheme \<Rightarrow> (py_exception + unit) \<times> 'a tracker_scheme" where
  "update_tokens_usage_all model_name [] w = (Inr (), w)"
| "update_tokens_usage_all model_name ((prompt_tokens, completion_tokens) # calls) w =
     (case update_tokens_usage model_name prompt_tokens completion_tokens w of
        (Inl e, w') \<Rightarrow> (Inl e, w')
      | (Inr _, w') \<Rightarrow> update_tokens_usage_all model_name calls w')"

text \<open>
  What the document holds for a model and as overall cost. A key that is absent counts
  as zero, which is the value the code starts from (\<^verbatim>\<open>setdefault\<close>, \<^verbatim>\<open>get(..., 0)\<close>).
\<close>

definition prompt_total :: "usage_doc option \<Rightarrow> string \<Rightarrow> int" where
  "prompt_total file model_name =
     (case file of
        None \<Rightarrow> 0
      | Some doc \<Rightarrow> (case doc model_name of Some (Usage p c) \<Rightarrow> p | _ \<Rightarrow> 0))"

definition completion_total :: "usage_doc option \<Rightarrow> string \<Rightarrow> int" where
  "completion_total file model_name =
     (case file of
        None \<Rightarrow> 0
      | Some doc \<Rightarrow> (case doc model_name of Some (Usage p c) \<Rightarrow> c | _ \<Rightarrow> 0))"

definition overall_cost :: "usage_doc option \<Rightarrow> real" where
  "overall_cost file =
     (case file of
        None \<Rightarrow> 0
      | Some doc \<Rightarrow> (case doc ''overall_cost'' of Some (Number cost) \<Rightarrow> cost | _ \<Rightarrow> 0))"

definition rates_nonneg :: "(string \<rightharpoonup> rate) \<Rightarrow> string \<Rightarrow> bool" where
  "rates_nonneg rates model_name =
     (case rates model_name of
        None \<Rightarrow> True
      | Some r \<Rightarrow> 0 \<le> prompt_token_cost r \<and> 0 \<le> completion_token_cost r)"

text \<open>The per-token rates that apply to a model: the configured ones, or zero.\<close>

definition rate_of :: "(string \<rightharpoonup> rate) \<Rightarrow> string \<Rightarrow> rate" where
  "rate_of rates model_name =
     (case rates model_name of
        Some r \<Rightarrow> r
      | None \<Rightarrow> \<lparr>prompt_token_cost = 0, completion_token_cost = 0\<rparr>)"

section \<open>Messages, tools, requests and responses\<close>

text \<open>
  A chat message has a role and a content. The content is a string or, for a vision
  request, a list of parts. \<open>StrItem\<close> is a bare string in such a list: Python's
  \<^verbatim>\<open>+=\<close> of a string onto a list appends its characters one by one.
\<close>

datatype content = Text string | Parts "part list"
  and part = TextPart content | ImageUrlPart string | StrItem string

record message =
  role :: string
  content :: content

text \<open>
  A tool definition, as far as the code looks into it: the function's name and
  description and, per parameter, its type, description and optional \<^verbatim>\<open>enum\<close> list.
\<close>

record tool_param =
  param_type :: string
  param_description :: string
  param_enum :: "string list option"

record tool =
  tool_name :: string
  tool_description :: string
  tool_properties :: "(string \<times> tool_param) list"
  tool_required :: "string list"

datatype tool_call = ToolCall string string string

text \<open>
  What the code reads of a vendor's reply: \<^verbatim>\<open>response.choices[0].message.content\<close>,
  \<^verbatim>\<open>response.choices[0].message.tool_calls\<close> (each may be \<^verbatim>\<open>None\<close>) and the two counters
  of \<^verbatim>\<open>response.usage\<close>.
\<close>

record response =
  message_content :: "string option"
  message_tool_calls :: "tool_call list option"
  usage_prompt_tokens :: int
  usage_completion_tokens :: int

text \<open>The vendor client objects the services hold.\<close>

datatype client =
    AzureOpenAI string string string
  | InferenceClient "string option" "string option"
  | OpenAIClient string

datatype response_format = JsonObject | JsonValue string

record chat_request =
  rq_client :: client
  rq_model :: "string option"
  rq_messages :: "message list"
  rq_max_tokens :: int
  rq_temperature :: py_float
  rq_response_format :: "response_format option"
  rq_tools :: "tool list option"

datatype network_call = ChatCompletions chat_request | ListDeployedModels "string option"

text \<open>The values the four operations return: a string, a list of tool calls, or \<^verbatim>\<open>None\<close>.\<close>

datatype py_value = PyNone | PyStr string | PyToolCalls "tool_call list"

definition str_value :: "string option \<Rightarrow> py_value" where
  "str_value s = (case s of None \<Rightarrow> PyNone | Some t \<Rightarrow> PyStr t)"

definition tool_calls_value :: "tool_call list option \<Rightarrow> py_value" where
  "tool_calls_value tcs = (case tcs of None \<Rightarrow> PyNone | Some l \<Rightarrow> PyToolCalls l)"

text \<open>Python's truth value of an optional list: \<^verbatim>\<open>None\<close> and \<^verbatim>\<open>[]\<close> are false.\<close>

definition truthy :: "'a list option \<Rightarrow> bool" where
  "truthy l = (case l of None \<Rightarrow> False | Some [] \<Rightarrow> False | Some (x # xs) \<Rightarrow> True)"

section \<open>The world of a service\<close>

text \<open>
  A service object, as \<^verbatim>\<open>LLMService.__init__\<close> fills it. Its \<^verbatim>\<open>token_tracker\<close> is an
  instance of \<^verbatim>\<open>TokenTracker\<close>, whose state is all class state and lives in the world.
\<close>

datatype service_class = AzureOpenAIService_cls | HuggingFaceService_cls | OpenAIService_cls

record service =
  self_class :: service_class
  self_model_name :: string
  self_temperature :: py_float
  self_max_tokens :: int
  self_client :: client

type_synonym service_key = "string \<times> string \<times> py_float \<times> int"

text \<open>
  Everything outside the code that it reads or changes, on top of the tracker's state:
  \<^item> \<open>environ\<close>: the process environment, and \<open>dotenv\<close>: the assignments of the file
    \<^verbatim>\<open>.env\<close> (empty when there is none);
  \<^item> \<open>deployed_models\<close>: what \<^verbatim>\<open>list_deployed_models()["text-generation"]\<close> gives at
    Hugging Face, a list of names or an exception;
  \<^item> \<open>replies\<close>: what the vendors will answer to the next chat completion calls, in
    order, each a response or an exception; a call takes the first;
  \<^item> \<open>requests\<close>: the network calls made so far, oldest first;
  \<^item> \<open>image_files\<close>: the readable files, each as the base64 text of its bytes;
  \<^item> \<open>services\<close>: the class attribute \<^verbatim>\<open>LLMServiceFactory._services\<close>, from keys to
    references, and \<open>heap\<close>: the service objects, a reference being an index into it.
\<close>

record world = tracker +
  environ :: "string \<rightharpoonup> string"
  dotenv :: "string \<rightharpoonup> string"
  deployed_models :: "py_exception + string list"
  replies :: "(py_exception + response) list"
  requests :: "network_call list"
  image_files :: "string \<rightharpoonup> string"
  services :: "service_key \<rightharpoonup> nat"
  heap :: "service list"

text \<open>A chat completion call of a vendor client: it is recorded, and answered by the next reply.\<close>

definition chat_completion :: "chat_request \<Rightarrow> world \<Rightarrow> (py_exception + response) \<times> world" where
  "chat_completion rq w =
     (case replies w of
        [] \<Rightarrow> (Inl (APIError ''no reply''), w\<lparr>requests := requests w @ [ChatCompletions rq]\<rparr>)
      | reply # later \<Rightarrow> (reply, w\<lparr>replies := later, requests := requests w @ [ChatCompletions rq]\<rparr>))"

section \<open>llm\_services/llm\_interface.py\<close>

text \<open>
  \<^verbatim>\<open>LLMService.__init__\<close>. The two checks come first; then \<^verbatim>\<open>load_dotenv\<close> with
  \<^verbatim>\<open>override=True\<close> lays the assignments of \<^verbatim>\<open>.env\<close> over the environment, and the
  subclass's \<^verbatim>\<open>initialize_client\<close> runs, which has \<^verbatim>\<open>self.model_name\<close> to read.
\<close>

definition LLMService_init ::
  "service_class \<Rightarrow> (string \<Rightarrow> world \<Rightarrow> (py_exception + client) \<times> world)
     \<Rightarrow> string \<Rightarrow> py_float \<Rightarrow> int \<Rightarrow> world \<Rightarrow> (py_exception + service) \<times> world" where
  "LLMService_init cls initialize_client model_name temperature max_tokens w =
     (if lt temperature (Finite 0) \<or> lt (Finite 2) temperature
      then (Inl (ValueError ''Temperature must be between 0 and 2.''), w)
      else if max_tokens < 1
      then (Inl (ValueError ''Max tokens must be greater than 0.''), w)
      else (case initialize_client model_name (w\<lparr>environ := environ w ++ dotenv w\<rparr>) of
              (Inl e, w') \<Rightarrow> (Inl e, w')
            | (Inr cl, w') \<Rightarrow>
                (Inr \<lparr>self_class = cls, self_model_name = model_name, self_temperature = temperature,
                      self_max_tokens = max_tokens, self_client = cl\<rparr>, w')))"

section \<open>llm\_services/azure\_openai\_service.py\<close>

text \<open>\<^verbatim>\<open>not api_key or not endpoint\<close>: a variable that is unset or empty is missing.\<close>

definition AzureOpenAIService_initialize_client ::
  "string \<Rightarrow> world \<Rightarrow> (py_exception + client) \<times> world" where
  "AzureOpenAIService_initialize_client model_name w =
     (case (environ w ''AZURE_OPENAI_KEY'', environ w ''AZURE_OPENAI_ENDPOINT'') of
        (Some api_key, Some endpoint) \<Rightarrow>
          if api_key = [] \<or> endpoint = []
          then (Inl (EnvironmentError ''Azure OpenAI API key or endpoint not found in environment variables.''), w)
          else (Inr (AzureOpenAI ''2023-05-15'' api_key endpoint), w)
      | _ \<Rightarrow> (Inl (EnvironmentError ''Azure OpenAI API key or endpoint not found in environment variables.''), w))"

definition AzureOpenAIService ::
  "string \<Rightarrow> py_float \<Rightarrow> int \<Rightarrow> world \<Rightarrow> (py_exception + service) \<times> world" where
  "AzureOpenAIService model_name temperature max_tokens w =
     LLMService_init AzureOpenAIService_cls AzureOpenAIService_initialize_client
       model_name temperature max_tokens w"

text \<open>
  The body shared by the \<^verbatim>\<open>api_call\<close> closures: the chat completion call, then the usage
  update with the counters of the response, then the value picked from the response. An
  exception of either step leaves \<^verbatim>\<open>api_call\<close>, to be caught by \<^verbatim>\<open>retry_request\<close>.
\<close>

definition api_call ::
  "chat_request \<Rightarrow> string \<Rightarrow> (response \<Rightarrow> py_value) \<Rightarrow> world \<Rightarrow> (py_exception + py_value) \<times> world" where
  "api_call rq model_name pick w =
     (case chat_completion rq w of
        (Inl e, w') \<Rightarrow> (Inl e, w')
      | (Inr resp, w') \<Rightarrow>
          (case update_tokens_usage model_name (usage_prompt_tokens resp) (usage_completion_tokens resp) w' of
             (Inl e, w'') \<Rightarrow> (Inl e, w'')
           | (Inr _, w'') \<Rightarrow> (Inr (pick resp), w'')))"

text \<open>
  \<^verbatim>\<open>return retry_request(api_call)\<close>: the value of the call, where falling out of the loop
  gives \<^verbatim>\<open>None\<close>.
\<close>

definition returned ::
  "(py_exception + py_value option) \<times> world \<times> event list \<Rightarrow> (py_exception + py_value) \<times> world \<times> event list" where
  "returned res =
     (case res of
        (Inl e, w, tr) \<Rightarrow> (Inl e, w, tr)
      | (Inr None, w, tr) \<Rightarrow> (Inr PyNone, w, tr)
      | (Inr (Some v), w, tr) \<Rightarrow> (Inr v, w, tr))"

definition azure_request :: "service \<Rightarrow> message list \<Rightarrow> chat_request" where
  "azure_request self messages =
     \<lparr>rq_client = self_client self, rq_model = Some (self_model_name self), rq_messages = messages,
      rq_max_tokens = self_max_tokens self, rq_temperature = self_temperature self,
      rq_response_format = None, rq_tools = None\<rparr>"

definition AzureOpenAIService_make_request ::
  "service \<Rightarrow> message list \<Rightarrow> world \<Rightarrow> (py_exception + py_value) \<times> world \<times> event list" where
  "AzureOpenAIService_make_request self messages w =
     returned (retry_request_default
       (api_call (azure_request self messages) (self_model_name self) (\<lambda>resp. str_value (message_content resp))) w)"

text \<open>
  Lines 51 to 53 of \<^verbatim>\<open>make_request_json\<close>. The condition is
  \<^verbatim>\<open>not ("JSON" or "json" in messages[0].content)\<close>. Python's \<^verbatim>\<open>or\<close> gives its left operand
  when that is true, here the non-empty string \<^verbatim>\<open>"JSON"\<close>, and evaluates the right one only
  otherwise; so \<^verbatim>\<open>messages[0]\<close> is read only if \<^verbatim>\<open>"JSON"\<close> were empty. \<open>in_content\<close> is
  Python's \<^verbatim>\<open>in\<close> on a content, \<open>add_str\<close> its \<^verbatim>\<open>+=\<close> of a string.
\<close>

definition in_content :: "string \<Rightarrow> content \<Rightarrow> bool" where
  "in_content s c = (case c of Text t \<Rightarrow> sublist s t | Parts ps \<Rightarrow> List.member ps (StrItem s))"

definition add_str :: "content \<Rightarrow> string \<Rightarrow> content" where
  "add_str c s = (case c of Text t \<Rightarrow> Text (t @ s) | Parts ps \<Rightarrow> Parts (ps @ map (\<lambda>ch. StrItem [ch]) s))"

definition json_instruction :: string where
  "json_instruction = '' Your task is to return the response in JSON format.''"

definition json_mode_messages :: "message list \<Rightarrow> py_exception + message list" where
  "json_mode_messages messages =
     (if ''JSON'' \<noteq> [] then Inr messages
      else (case messages of
              [] \<Rightarrow> Inl (IndexError ''list index out of range'')
            | first # others \<Rightarrow>
                if in_content ''json'' (content first) then Inr messages
                else Inr (first\<lparr>content := add_str (content first) json_instruction\<rparr> # others)))"

definition AzureOpenAIService_make_request_json ::
  "service \<Rightarrow> message list \<Rightarrow> string \<Rightarrow> world \<Rightarrow> (py_exception + py_value) \<times> world \<times> event list" where
  "AzureOpenAIService_make_request_json self messages json_scheme w =
     (case json_mode_messages messages of
        Inl e \<Rightarrow> (Inl e, w, [])
      | Inr messages' \<Rightarrow>
          returned (retry_request_default
            (api_call ((azure_request self messages')\<lparr>rq_response_format := Some JsonObject\<rparr>)
               (self_model_name self) (\<lambda>resp. str_value (message_content resp))) w))"



section \<open>utils/image\_encoding.py\<close>

definition encode_image :: "string \<Rightarrow> world \<Rightarrow> py_exception + string" where
  "encode_image image_path w =
     (case image_files w image_path of
        None \<Rightarrow> Inl (FileNotFoundError image_path)
      | Some base64_text \<Rightarrow> Inr base64_text)"

section \<open>make\_request\_image\<close>

definition vision_models :: "string list" where
  "vision_models = [''gpt-4o'', ''gpt-4o-mini'', ''gpt-4-turbo'']"

definition vision_error :: py_exception where
  "vision_error = ValueError ''Use a model with vision capabilities for image requests. The following models support images: gpt-4o, gpt-4o-mini, gpt-4-turbo.''"

definition AzureOpenAIService_make_request_image ::
  "service \<Rightarrow> message list \<Rightarrow> string \<Rightarrow> world \<Rightarrow> (py_exception + py_value) \<times> world \<times> event list" where
  "AzureOpenAIService_make_request_image self messages image_path w =
     (if self_model_name self \<notin> set vision_models then (Inl vision_error, w, [])
      else (case encode_image image_path w of
              Inl e \<Rightarrow> (Inl e, w, [])
            | Inr base64_image \<Rightarrow>
                (case rev messages of
                   [] \<Rightarrow> (Inl (IndexError ''list index out of range''), w, [])
                 | final # before \<Rightarrow>
                     (let user_prompt = \<lparr>role = ''user'',
                            content = Parts [TextPart (content final),
                                             ImageUrlPart (''data:image/jpeg;base64,'' @ base64_image)]\<rparr>
                      in returned (retry_request_default
                           (api_call (azure_request self (rev before @ [user_prompt]))
                              (self_model_name self) (\<lambda>resp. str_value (message_content resp))) w)))))"

section \<open>llm\_services/huggingface\_service.py\<close>

text \<open>
  \<^verbatim>\<open>_get_available_models\<close> asks Hugging Face for the deployed models: a network call.
\<close>

definition HuggingFaceService_get_available_models ::
  "world \<Rightarrow> (py_exception + string list) \<times> world" where
  "HuggingFaceService_get_available_models w =
     (deployed_models w,
      w\<lparr>requests := requests w @ [ListDeployedModels (environ w ''HUGGINGFACE_API_TOKEN'')]\<rparr>)"

definition HuggingFaceService_initialize_client ::
  "string \<Rightarrow> world \<Rightarrow> (py_exception + client) \<times> world" where
  "HuggingFaceService_initialize_client model_name w =
     (case HuggingFaceService_get_available_models w of
        (Inl e, w') \<Rightarrow> (Inl e, w')
      | (Inr models, w') \<Rightarrow>
          if model_name \<notin> set models
          then (Inl (ValueError (''Model '' @ model_name @ '' is not available.'')), w')
          else (Inr (InferenceClient (Some model_name) (environ w' ''HUGGINGFACE_API_TOKEN'')), w'))"

definition HuggingFaceService ::
  "string \<Rightarrow> py_float \<Rightarrow> int \<Rightarrow> world \<Rightarrow> (py_exception + service) \<times> world" where
  "HuggingFaceService model_name temperature max_tokens w =
     LLMService_init HuggingFaceService_cls HuggingFaceService_initialize_client
       model_name temperature max_tokens w"

definition hf_request :: "service \<Rightarrow> message list \<Rightarrow> chat_request" where
  "hf_request self messages =
     \<lparr>rq_client = self_client self, rq_model = None, rq_messages = messages,
      rq_max_tokens = self_max_tokens self, rq_temperature = self_temperature self,
      rq_response_format = None, rq_tools = None\<rparr>"

definition HuggingFaceService_make_request ::
  "service \<Rightarrow> message list \<Rightarrow> world \<Rightarrow> (py_exception + py_value) \<times> world \<times> event list" where
  "HuggingFaceService_make_request self messages w =
     returned (retry_request_default
       (api_call (hf_request self messages) (self_model_name self) (\<lambda>resp. str_value (message_content resp))) w)"

definition HuggingFaceService_make_request_json ::
  "service \<Rightarrow> message list \<Rightarrow> string \<Rightarrow> world \<Rightarrow> (py_exception + py_value) \<times> world \<times> event list" where
  "HuggingFaceService_make_request_json self messages json_scheme w =
     returned (retry_request_default
       (api_call ((hf_request self messages)\<lparr>rq_response_format := Some (JsonValue json_scheme)\<rparr>)
          (self_model_name self) (\<lambda>resp. str_value (message_content resp))) w)"

text \<open>
  The loop over the tools before the call: a parameter whose \<^verbatim>\<open>enum\<close> is there and empty
  loses it.
\<close>

definition remove_empty_enum :: "tool_param \<Rightarrow> tool_param" where
  "remove_empty_enum param =
     (case param_enum param of
        Some [] \<Rightarrow> param\<lparr>param_enum := None\<rparr>
      | _ \<Rightarrow> param)"

definition remove_empty_enums :: "tool list \<Rightarrow> tool list" where
  "remove_empty_enums tools =
     map (\<lambda>t. t\<lparr>tool_properties :=
                  map (\<lambda>(param_name, param). (param_name, remove_empty_enum param)) (tool_properties t)\<rparr>)
       tools"

text \<open>
  Lines 83 to 95 of \<^verbatim>\<open>make_request_with_tools\<close>, with the test for no tool calls
  written twice, the second time inside the \<^verbatim>\<open>else\<close> of the first, as in the source.
\<close>

definition HuggingFaceService_response_message :: "bool \<Rightarrow> response \<Rightarrow> py_value" where
  "HuggingFaceService_response_message return_only_tool_response resp =
     (if return_only_tool_response then tool_calls_value (message_tool_calls resp)
      else if \<not> truthy (message_tool_calls resp) then str_value (message_content resp)
      else if \<not> truthy (message_tool_calls resp) then str_value (message_content resp)
      else tool_calls_value (message_tool_calls resp))"

definition HuggingFaceService_make_request_with_tools ::
  "service \<Rightarrow> message list \<Rightarrow> tool list \<Rightarrow> bool \<Rightarrow> bool \<Rightarrow> world
     \<Rightarrow> (py_exception + py_value) \<times> world \<times> event list" where
  "HuggingFaceService_make_request_with_tools self messages tools parallel_tool_calls
       return_only_tool_response w =
     (if parallel_tool_calls
      then (Inl (ValueError ''Hugging Face models do not support parallel tool calls.''), w, [])
      else returned (retry_request_default
             (api_call ((hf_request self messages)\<lparr>rq_tools := Some (remove_empty_enums tools)\<rparr>)
                (self_model_name self) (HuggingFaceService_response_message return_only_tool_response)) w))"

definition HuggingFaceService_make_request_image ::
  "service \<Rightarrow> message list \<Rightarrow> string \<Rightarrow> world \<Rightarrow> (py_exception + py_value) \<times> world \<times> event list" where
  "HuggingFaceService_make_request_image self messages image_path w =
     (Inl (NotImplementedError ''Method `make_request_image` is not implemented for HuggingFace models.''),
      w, [])"

section \<open>llm\_services/openai\_service.py\<close>

text \<open>
  Modelled from the spec: the class \<^verbatim>\<open>OpenAIService\<close>, which \<^verbatim>\<open>LLMServiceFactory\<close> imports
  from \<^verbatim>\<open>llm_services/openai_service.py\<close>; the file is not among the sources. The spec
  gives the construction-time validation as shared by all providers, so the constructor
  is \<^verbatim>\<open>LLMService.__init__\<close>, as for the two classes above. What its
  \<^verbatim>\<open>initialize_client\<close> does is not known and stays a parameter.
\<close>

definition OpenAIService ::
  "(string \<Rightarrow> world \<Rightarrow> (py_exception + client) \<times> world)
     \<Rightarrow> string \<Rightarrow> py_float \<Rightarrow> int \<Rightarrow> world \<Rightarrow> (py_exception + service) \<times> world" where
  "OpenAIService initialize_client model_name temperature max_tokens w =
     LLMService_init OpenAIService_cls initialize_client model_name temperature max_tokens w"

section \<open>LLMServiceFactory.py\<close>

text \<open>
  \<open>register\<close> is the assignment \<^verbatim>\<open>cls._services[key] = Service(...)\<close>: when the constructor
  raises, nothing is stored; otherwise the new object gets the next free reference, which
  the dictionary keeps under the key.
\<close>

definition register ::
  "service_key \<Rightarrow> (py_exception + service) \<times> world \<Rightarrow> (py_exception + unit) \<times> world" where
  "register key constructed =
     (case constructed of
        (Inl e, w) \<Rightarrow> (Inl e, w)
      | (Inr obj, w) \<Rightarrow>
          (Inr (), w\<lparr>services := (services w)(key \<mapsto> length (heap w)), heap := heap w @ [obj]\<rparr>))"

text \<open>
  \<^verbatim>\<open>get_service\<close> returns a reference to a service object. The parameter
  \<open>openai_initialize_client\<close> is the unknown part of \<^verbatim>\<open>OpenAIService\<close>.
\<close>

definition get_service ::
  "(string \<Rightarrow> world \<Rightarrow> (py_exception + client) \<times> world)
     \<Rightarrow> string \<Rightarrow> string \<Rightarrow> py_float \<Rightarrow> int \<Rightarrow> world \<Rightarrow> (py_exception + nat) \<times> world" where
  "get_service openai_initialize_client model_name provider temperature max_tokens w =
     (let key = (model_name, provider, temperature, max_tokens);
          created =
            (if services w key = None then
               (if provider = ''AzureOpenAI''
                then register key (AzureOpenAIService model_name temperature max_tokens w)
                else if provider = ''HuggingFace''
                then register key (HuggingFaceService model_name temperature max_tokens w)
                else if provider = ''OpenAI''
                then register key (OpenAIService openai_initialize_client model_name temperature max_tokens w)
                else (Inl (ValueError (''Unsupported provider: '' @ provider
                        @ ''. Supported providers: AzureOpenAI, HuggingFace and OpenAI.'')), w))
             else (Inr (), w))
      in case created of
           (Inl e, w') \<Rightarrow> (Inl e, w')
         | (Inr _, w') \<Rightarrow>
             (case services w' key of
                Some ref \<Rightarrow> (Inr ref, w')
              | None \<Rightarrow> (Inl (KeyError ''key''), w')))"




section \<open>Example worlds\<close>

text \<open>
  A fresh process for the examples: nothing cached, no usage file, the Azure variables
  set in \<^verbatim>\<open>.env\<close>, two models deployed at Hugging Face, and no reply scheduled.
\<close>

definition fresh_world :: world where
  "fresh_world =
     \<lparr>COST_RATES = initial_COST_RATES, tokens_usage_file = None,
      environ = Map.empty,
      dotenv = Map.empty(''AZURE_OPENAI_KEY'' \<mapsto> ''k'', ''AZURE_OPENAI_ENDPOINT'' \<mapsto> ''https://e''),
      deployed_models = Inr [''HuggingFaceH4/zephyr-7b-beta'', ''microsoft/Phi-3-mini-4k-instruct''],
      replies = [], requests = [], image_files = Map.empty, services = Map.empty, heap = []\<rparr>"

definition azure_service :: "string \<Rightarrow> service" where
  "azure_service model_name =
     \<lparr>self_class = AzureOpenAIService_cls, self_model_name = model_name, self_temperature = Finite 1,
      self_max_tokens = 4096, self_client = AzureOpenAI ''2023-05-15'' ''k'' ''https://e''\<rparr>"

definition hf_service :: "string \<Rightarrow> service" where
  "hf_service model_name =
     \<lparr>self_class = HuggingFaceService_cls, self_model_name = model_name, self_temperature = Finite 1,
      self_max_tokens = 4096, self_client = InferenceClient (Some model_name) None\<rparr>"

section \<open>Properties of the retry wrapper\<close>

lemma retry_loop_exhausted:
  "outcomes func (length es) w = map Inl es \<Longrightarrow> es \<noteq> [] \<Longrightarrow> list_all is_Exception es \<Longrightarrow>
   length es = 1 \<or> sleep wait_time = Inr () \<Longrightarrow> attempt + int (length es) = retries \<Longrightarrow>
   retry_loop func retries wait_time attempt w tr =
     (Inl (RuntimeError retries (last es)), world_after func (length es) w,
      tr @ concat (replicate (length es - 1) [Call, Sleep wait_time]) @ [Call])"
proof (induction es arbitrary: attempt w tr)
  case Nil
  then show ?case by simp
next
  case (Cons e es)
  obtain r w' where fw: "func w = (r, w')" by (cases "func w")
  from Cons.prems(1) fw have r: "r = Inl e" and rest: "outcomes func (length es) w' = map Inl es"
    by simp_all
  from Cons.prems(3) have exn: "is_Exception e" and exns: "list_all is_Exception es"
    by simp_all
  show ?case
  proof (cases "es = []")
    case True
    with Cons.prems(5) have "attempt = retries - 1" by simp
    with True fw r exn show ?thesis
      by (subst retry_loop.simps) simp
  next
    case False
    from Cons.prems(5) have step: "(attempt + 1) + int (length es) = retries" by simp
    from False Cons.prems(5) have bounds: "attempt < retries" "attempt \<noteq> retries - 1"
      by auto
    from False Cons.prems(4) have slept: "sleep wait_time = Inr ()"
      by (cases es) simp_all
    then have slept': "length es = 1 \<or> sleep wait_time = Inr ()" by simp
    have "retry_loop func retries wait_time attempt w tr =
            retry_loop func retries wait_time (attempt + 1) w' (tr @ [Call, Sleep wait_time])"
      using fw r bounds exn slept by (subst retry_loop.simps) simp
    also have "\<dots> = (Inl (RuntimeError retries (last es)), world_after func (length es) w',
        (tr @ [Call, Sleep wait_time]) @ concat (replicate (length es - 1) [Call, Sleep wait_time]) @ [Call])"
      by (rule Cons.IH [OF rest False exns slept' step])
    finally show ?thesis using False fw
      by (cases es) (simp_all)
  qed
qed

lemma retry_loop_succeeds:
  "outcomes func (Suc (length es)) w = map Inl es @ [Inr v] \<Longrightarrow> list_all is_Exception es \<Longrightarrow>
   es = [] \<or> sleep wait_time = Inr () \<Longrightarrow> attempt + int (length es) < retries \<Longrightarrow>
   retry_loop func retries wait_time attempt w tr =
     (Inr (Some v), world_after func (Suc (length es)) w,
      tr @ concat (replicate (length es) [Call, Sleep wait_time]) @ [Call])"
proof (induction es arbitrary: attempt w tr)
  case Nil
  obtain r w' where fw: "func w = (r, w')" by (cases "func w")
  with Nil show ?case by (subst retry_loop.simps) simp
next
  case (Cons e es)
  obtain r w' where fw: "func w = (r, w')" by (cases "func w")
  from Cons.prems(1) fw have r: "r = Inl e"
    and rest: "outcomes func (Suc (length es)) w' = map Inl es @ [Inr v]"
    by simp_all
  from Cons.prems(2) have exn: "is_Exception e" and exns: "list_all is_Exception es"
    by simp_all
  from Cons.prems(3) have slept: "sleep wait_time = Inr ()" by simp
  then have slept': "es = [] \<or> sleep wait_time = Inr ()" by simp
  from Cons.prems(4) have step: "(attempt + 1) + int (length es) < retries" by simp
  from Cons.prems(4) have bounds: "attempt < retries" "attempt \<noteq> retries - 1" by auto
  have "retry_loop func retries wait_time attempt w tr =
          retry_loop func retries wait_time (attempt + 1) w' (tr @ [Call, Sleep wait_time])"
    using fw r bounds exn slept by (subst retry_loop.simps) simp
  also have "\<dots> = (Inr (Some v), world_after func (Suc (length es)) w',
      (tr @ [Call, Sleep wait_time]) @ concat (replicate (length es) [Call, Sleep wait_time]) @ [Call])"
    by (rule Cons.IH [OF rest exns slept' step])
  finally show ?case using fw by simp
qed

lemma retry_loop_not_caught:
  "func w = (Inl e, w') \<Longrightarrow> \<not> is_Exception e \<Longrightarrow> attempt < retries \<Longrightarrow>
   retry_loop func retries wait_time attempt w tr = (Inl e, w', tr @ [Call])"
  by (subst retry_loop.simps) simp

lemma retry_loop_sleep_raises:
  "func w = (Inl e, w') \<Longrightarrow> is_Exception e \<Longrightarrow> attempt < retries - 1 \<Longrightarrow> sleep wait_time = Inl raised \<Longrightarrow>
   retry_loop func retries wait_time attempt w tr = (Inl raised, w', tr @ [Call])"
  by (subst retry_loop.simps) simp

lemma invocations_rounds:
  "invocations (tr @ concat (replicate n [Call, Sleep wait_time]) @ [Call]) = invocations tr + Suc n"
  by (induction n) (simp_all add: invocations_def)

lemma retry_loop_empty_range:
  "retries \<le> attempt \<Longrightarrow> retry_loop func retries wait_time attempt w tr = (Inr None, w, tr)"
  by (subst retry_loop.simps) simp

lemma length_outcomes: "length (outcomes func n w) = n"
  by (induction n arbitrary: w) simp_all

lemma sleep_default: "sleep (Finite (1 / 2)) = Inr ()"
  by (simp add: sleep_def)


text \<open>
  Claim C4 as stated fails, in two ways. An operation that raises \<open>KeyboardInterrupt\<close> on
  every call is called once and the exception leaves \<^verbatim>\<open>retry_request\<close> as it is: it is
  no \<^verbatim>\<open>Exception\<close>, and nothing is aggregated. And with a negative \<^verbatim>\<open>wait_time\<close> the
  \<^verbatim>\<open>sleep\<close> in the handler raises a \<^verbatim>\<open>ValueError\<close> after the first failed call of three.
\<close>

theorem retry_request_uncaught_or_bad_wait:
  "outcomes (\<lambda>n::nat. (Inl KeyboardInterrupt :: py_exception + unit, Suc n)) 3 0
     = map Inl [KeyboardInterrupt, KeyboardInterrupt, KeyboardInterrupt]
   \<and> retry_request (\<lambda>n::nat. (Inl KeyboardInterrupt :: py_exception + unit, Suc n)) 3 (Finite (1 / 2)) 0
     = (Inl KeyboardInterrupt, 1, [Print ''!'', Call])
   \<and> outcomes (\<lambda>n::nat. (Inl (APIError ''down'') :: py_exception + unit, Suc n)) 3 0
     = map Inl [APIError ''down'', APIError ''down'', APIError ''down'']
   \<and> retry_request (\<lambda>n::nat. (Inl (APIError ''down'') :: py_exception + unit, Suc n)) 3 (Finite (- 1)) 0
     = (Inl (ValueError ''sleep length must be non-negative''), 1, [Print ''!'', Call])"
proof -
  have a: "retry_request (\<lambda>n::nat. (Inl KeyboardInterrupt :: py_exception + unit, Suc n)) 3 (Finite (1 / 2)) 0
     = (Inl KeyboardInterrupt, 1, [Print ''!'', Call])"
    unfolding retry_request_def by (rule trans [OF retry_loop_not_caught]) simp_all
  have "sleep (Finite (- 1)) = Inl (ValueError ''sleep length must be non-negative'')"
    by (simp add: sleep_def)
  then have b: "retry_request (\<lambda>n::nat. (Inl (APIError ''down'') :: py_exception + unit, Suc n)) 3 (Finite (- 1)) 0
     = (Inl (ValueError ''sleep length must be non-negative''), 1, [Print ''!'', Call])"
    unfolding retry_request_def by (subst retry_loop.simps) simp
  from a b show ?thesis by (simp add: numeral_3_eq_3)
qed

text \<open>
  Claim C4, as amended. For a positive retry count and a waiting time that \<^verbatim>\<open>sleep\<close>
  accepts (or a single attempt, which never sleeps), when each of the \<open>retries\<close> successive
  calls of the operation raises an \<^verbatim>\<open>Exception\<close>, \<^verbatim>\<open>retry_request\<close> raises one
  \<open>RuntimeError\<close> that holds the configured retry count and the exception of the last
  call, and it has called the operation exactly \<open>retries\<close> times, sleeping between two
  calls and not after the last.
\<close>

theorem retry_request_exhausted:
  assumes "0 < retries" and "outcomes func (nat retries) w = map Inl es"
    and "list_all is_Exception es" and "retries = 1 \<or> sleep wait_time = Inr ()"
  shows "retry_request func retries wait_time w =
           (Inl (RuntimeError retries (last es)), world_after func (nat retries) w,
            Print ''!'' # concat (replicate (nat retries - 1) [Call, Sleep wait_time]) @ [Call])
         \<and> invocations (snd (snd (retry_request func retries wait_time w))) = nat retries"
proof -
  from assms(2) have len: "length es = nat retries"
    using length_outcomes [of func "nat retries" w] by simp
  with assms(1) have ne: "es \<noteq> []" by auto
  from len assms(1) have sum: "0 + int (length es) = retries" by simp
  from assms(2) len have out: "outcomes func (length es) w = map Inl es" by simp
  from assms(4) len have slept: "length es = 1 \<or> sleep wait_time = Inr ()" by auto
  have run: "retry_request func retries wait_time w =
           (Inl (RuntimeError retries (last es)), world_after func (nat retries) w,
            Print ''!'' # concat (replicate (nat retries - 1) [Call, Sleep wait_time]) @ [Call])"
    unfolding retry_request_def
    using retry_loop_exhausted [OF out ne assms(3) slept sum, of "[Print ''!'']"] len by simp
  have "invocations ([Print ''!''] @ concat (replicate (nat retries - 1) [Call, Sleep wait_time]) @ [Call])
          = nat retries"
    using assms(1) by (simp only: invocations_rounds) (simp add: invocations_def)
  with run show ?thesis by simp
qed

theorem retry_request_exhausted_witness:
  "(0::int) < 3
   \<and> outcomes (\<lambda>n::nat. (Inl (APIError (replicate n CHR ''x'')) :: py_exception + unit, Suc n)) (nat 3) 0
       = map Inl [APIError '''', APIError ''x'', APIError ''xx'']
   \<and> list_all is_Exception [APIError '''', APIError ''x'', APIError ''xx'']
   \<and> sleep (Finite (1 / 2)) = Inr ()
   \<and> retry_request (\<lambda>n::nat. (Inl (APIError (replicate n CHR ''x'')) :: py_exception + unit, Suc n)) 3
        (Finite (1 / 2)) 0
       = (Inl (RuntimeError 3 (APIError ''xx'')), 3,
          [Print ''!'', Call, Sleep (Finite (1 / 2)), Call, Sleep (Finite (1 / 2)), Call])
   \<and> invocations (snd (snd (retry_request
         (\<lambda>n::nat. (Inl (APIError (replicate n CHR ''x'')) :: py_exception + unit, Suc n)) 3
         (Finite (1 / 2)) 0))) = 3"
proof -
  have pos: "(0::int) < 3" by simp
  have out: "outcomes (\<lambda>n::nat. (Inl (APIError (replicate n CHR ''x'')) :: py_exception + unit, Suc n)) (nat 3) 0
       = map Inl [APIError '''', APIError ''x'', APIError ''xx'']"
    by (simp add: numeral_3_eq_3)
  have exns: "list_all is_Exception [APIError '''', APIError ''x'', APIError ''xx'']" by simp
  have slept: "(3::int) = 1 \<or> sleep (Finite (1 / 2)) = Inr ()" by (simp add: sleep_def)
  show ?thesis
    using retry_request_exhausted [OF pos out exns slept] out
    by (simp add: numeral_3_eq_3 invocations_def sleep_def)
qed

text \<open>
  Claim C5 as stated fails, in two ways. An operation whose first two calls raise
  \<open>KeyboardInterrupt\<close> and whose third would return is called once, and the exception
  leaves \<^verbatim>\<open>retry_request(func)\<close>. And with a negative \<^verbatim>\<open>wait_time\<close> the failure of the first
  call is followed by the \<^verbatim>\<open>ValueError\<close> of \<^verbatim>\<open>sleep\<close>, not by a second call.
\<close>

theorem retry_request_not_retried:
  "outcomes (\<lambda>n::nat. (if n < 2 then Inl KeyboardInterrupt else Inr n, Suc n)) 3 0
     = [Inl KeyboardInterrupt, Inl KeyboardInterrupt, Inr 2]
   \<and> retry_request_default (\<lambda>n::nat. (if n < 2 then Inl KeyboardInterrupt else Inr n, Suc n)) 0
     = (Inl KeyboardInterrupt, 1, [Print ''!'', Call])
   \<and> outcomes (\<lambda>n::nat. (if n < 2 then Inl (APIError ''timeout'') else Inr n, Suc n)) 3 0
     = [Inl (APIError ''timeout''), Inl (APIError ''timeout''), Inr 2]
   \<and> retry_request (\<lambda>n::nat. (if n < 2 then Inl (APIError ''timeout'') else Inr n, Suc n)) 3 (Finite (- 1)) 0
     = (Inl (ValueError ''sleep length must be non-negative''), 1, [Print ''!'', Call])"
proof -
  have a: "retry_request_default (\<lambda>n::nat. (if n < 2 then Inl KeyboardInterrupt else Inr n, Suc n)) 0
     = (Inl KeyboardInterrupt, 1, [Print ''!'', Call])"
    unfolding retry_request_default_def retry_request_def
    by (rule trans [OF retry_loop_not_caught]) simp_all
  have "sleep (Finite (- 1)) = Inl (ValueError ''sleep length must be non-negative'')"
    by (simp add: sleep_def)
  then have b: "retry_request (\<lambda>n::nat. (if n < 2 then Inl (APIError ''timeout'') else Inr n, Suc n)) 3
      (Finite (- 1)) 0
     = (Inl (ValueError ''sleep length must be non-negative''), 1, [Print ''!'', Call])"
    unfolding retry_request_def by (subst retry_loop.simps) simp
  from a b show ?thesis by (simp add: numeral_3_eq_3)
qed

text \<open>
  Claim C5, as amended. An operation that raises an \<^verbatim>\<open>Exception\<close> on each of its first
  two calls and returns \<open>v\<close> on the third makes \<^verbatim>\<open>retry_request(func)\<close> (three retries and
  half a second by default) return \<open>v\<close> after exactly three calls. In general, the first
  call that returns ends the loop at once: after \<open>length es\<close> failures with an
  \<^verbatim>\<open>Exception\<close>, each followed by a wait that \<^verbatim>\<open>sleep\<close> accepts, and one success, the
  operation has been called \<open>length es + 1\<close> times and never again.
\<close>

theorem retry_request_short_circuits:
  "(outcomes func 3 w = [Inl e1, Inl e2, Inr v] \<and> is_Exception e1 \<and> is_Exception e2 \<longrightarrow>
      retry_request_default func w =
        (Inr (Some v), world_after func 3 w,
         [Print ''!'', Call, Sleep (Finite (1 / 2)), Call, Sleep (Finite (1 / 2)), Call])
      \<and> invocations (snd (snd (retry_request_default func w))) = 3)
   \<and> (outcomes func (Suc (length es)) w = map Inl es @ [Inr v] \<and> list_all is_Exception es
        \<and> (es = [] \<or> sleep wait_time = Inr ()) \<and> int (length es) < retries \<longrightarrow>
      retry_request func retries wait_time w =
        (Inr (Some v), world_after func (Suc (length es)) w,
         Print ''!'' # concat (replicate (length es) [Call, Sleep wait_time]) @ [Call])
      \<and> invocations (snd (snd (retry_request func retries wait_time w))) = Suc (length es))"
proof -
  have general: "retry_request func retries wait_time w =
        (Inr (Some v), world_after func (Suc (length es)) w,
         Print ''!'' # concat (replicate (length es) [Call, Sleep wait_time]) @ [Call])
      \<and> invocations (snd (snd (retry_request func retries wait_time w))) = Suc (length es)"
    if out: "outcomes func (Suc (length es)) w = map Inl es @ [Inr v]"
      and exns: "list_all is_Exception es"
      and slept: "es = [] \<or> sleep wait_time = Inr ()"
      and less: "int (length es) < retries"
    for retries wait_time and es :: "py_exception list"
  proof -
    from less have less0: "0 + int (length es) < retries" by simp
    have run: "retry_request func retries wait_time w =
        (Inr (Some v), world_after func (Suc (length es)) w,
         Print ''!'' # concat (replicate (length es) [Call, Sleep wait_time]) @ [Call])"
      unfolding retry_request_def
      using retry_loop_succeeds [OF out exns slept less0, of "[Print ''!'']"] by simp
    have "invocations ([Print ''!''] @ concat (replicate (length es) [Call, Sleep wait_time]) @ [Call])
            = Suc (length es)"
      by (simp only: invocations_rounds) (simp add: invocations_def)
    with run show ?thesis by simp
  qed
  have third: "retry_request_default func w =
        (Inr (Some v), world_after func 3 w,
         [Print ''!'', Call, Sleep (Finite (1 / 2)), Call, Sleep (Finite (1 / 2)), Call])
      \<and> invocations (snd (snd (retry_request_default func w))) = 3"
    if out: "outcomes func 3 w = [Inl e1, Inl e2, Inr v]" and exns: "is_Exception e1" "is_Exception e2"
  proof -
    from out have out': "outcomes func (Suc (length [e1, e2])) w = map Inl [e1, e2] @ [Inr v]"
      by (simp add: numeral_3_eq_3)
    have less: "int (length [e1, e2]) < 3" by simp
    have exns': "list_all is_Exception [e1, e2]" using exns by simp
    have slept: "[e1, e2] = [] \<or> sleep (Finite (1 / 2)) = Inr ()" by (simp add: sleep_def)
    from general [OF out' exns' slept less] show ?thesis
      by (simp add: retry_request_default_def numeral_3_eq_3 invocations_def)
  qed
  from general third show ?thesis by blast
qed

theorem retry_request_short_circuits_witness:
  "outcomes (\<lambda>n::nat. (if n < 2 then Inl (APIError ''timeout'') else Inr n, Suc n)) 3 0
     = [Inl (APIError ''timeout''), Inl (APIError ''timeout''), Inr 2]
   \<and> is_Exception (APIError ''timeout'')
   \<and> retry_request_default (\<lambda>n::nat. (if n < 2 then Inl (APIError ''timeout'') else Inr n, Suc n)) 0
     = (Inr (Some 2), 3, [Print ''!'', Call, Sleep (Finite (1 / 2)), Call, Sleep (Finite (1 / 2)), Call])
   \<and> invocations (snd (snd (retry_request_default
        (\<lambda>n::nat. (if n < 2 then Inl (APIError ''timeout'') else Inr n, Suc n)) 0))) = 3
   \<and> retry_request (\<lambda>n::nat. (if n < 2 then Inl (APIError ''timeout'') else Inr n, Suc n)) 10 (Finite (- 1)) 5
     = (Inr (Some 5), 6, [Print ''!'', Call])"
proof -
  let ?f = "\<lambda>n::nat. (if n < 2 then Inl (APIError ''timeout'') else Inr n, Suc n)"
  have out: "outcomes ?f 3 0 = [Inl (APIError ''timeout''), Inl (APIError ''timeout''), Inr 2]
      \<and> is_Exception (APIError ''timeout'') \<and> is_Exception (APIError ''timeout'')"
    by (simp add: numeral_3_eq_3)
  have out1: "outcomes ?f (Suc (length ([] :: py_exception list))) 5 = map Inl [] @ [Inr 5]
              \<and> list_all is_Exception []
              \<and> (([] :: py_exception list) = [] \<or> sleep (Finite (- 1)) = Inr ())
              \<and> int (length ([] :: py_exception list)) < 10"
    by simp
  note thm1 = retry_request_short_circuits [of ?f 0 "APIError ''timeout''" "APIError ''timeout''" 2,
      THEN conjunct1, rule_format, OF out]
  note thm2 = retry_request_short_circuits [of ?f 5 _ _ 5 "[]" "Finite (- 1)" 10,
      THEN conjunct2, rule_format, OF out1]
  from thm1 thm2 out show ?thesis
    by (simp add: numeral_3_eq_3 invocations_def)
qed

text \<open>
  Claim C10. With \<open>retries \<le> 0\<close> the range of the loop is empty: \<^verbatim>\<open>retry_request\<close>
  returns \<^verbatim>\<open>None\<close>, the operation is never called, nothing is raised and the world is
  as it was. Only the \<^verbatim>\<open>print("!")\<close> before the loop has happened.
\<close>

theorem retry_request_nonpositive_retries:
  "retries \<le> 0 \<Longrightarrow>
     retry_request func retries wait_time w = (Inr None, w, [Print ''!''])
     \<and> invocations (snd (snd (retry_request func retries wait_time w))) = 0"
  by (simp add: retry_request_def retry_loop_empty_range invocations_def)

theorem retry_request_nonpositive_retries_witness:
  "(0::int) \<le> 0 \<and> (-2::int) \<le> 0
   \<and> retry_request (\<lambda>n::nat. (Inr n, Suc n)) 0 (Finite (1 / 2)) 7 = (Inr None, 7, [Print ''!''])
   \<and> retry_request (\<lambda>n::nat. (Inl (APIError ''down'') :: py_exception + nat, Suc n)) (-2) (Finite (1 / 2)) 7
        = (Inr None, 7, [Print ''!''])
   \<and> invocations (snd (snd (retry_request (\<lambda>n::nat. (Inr n, Suc n)) 0 (Finite (1 / 2)) 7))) = 0"
  using retry_request_nonpositive_retries [of 0 "\<lambda>n::nat. (Inr n, Suc n)" "Finite (1 / 2)" 7]
    retry_request_nonpositive_retries [of "-2" "\<lambda>n::nat. (Inl (APIError ''down'') :: py_exception + nat, Suc n)"
      "Finite (1 / 2)" 7]
  by (simp add: invocations_def)

section \<open>Properties of the usage tracker\<close>

lemma update_tokens_usage_step:
  assumes "model_name \<noteq> ''overall_cost''"
    and "tokens_usage_file w = Some (Map.empty(model_name \<mapsto> Usage P C, ''overall_cost'' \<mapsto> Number X))"
    and "COST_RATES w model_name = Some r"
  shows "update_tokens_usage model_name p c w =
           (Inr (), w\<lparr>tokens_usage_file :=
              Some (Map.empty(model_name \<mapsto> Usage (P + p) (C + c),
                    ''overall_cost'' \<mapsto> Number (X + of_int p * prompt_token_cost r
                                                  + of_int c * completion_token_cost r)))\<rparr>)"
proof -
  have doc: "(Map.empty(model_name \<mapsto> Usage P C, ''overall_cost'' \<mapsto> Number X))
               (model_name \<mapsto> Usage (P + p) (C + c),
                ''overall_cost'' \<mapsto> Number (X + of_int p * prompt_token_cost r
                                                  + of_int c * completion_token_cost r))
             = Map.empty(model_name \<mapsto> Usage (P + p) (C + c),
                    ''overall_cost'' \<mapsto> Number (X + of_int p * prompt_token_cost r
                                                  + of_int c * completion_token_cost r))"
    by (rule ext) simp
  have rates: "w\<lparr>COST_RATES := COST_RATES w\<rparr> = w" by simp
  show ?thesis
    using assms doc by (simp add: update_tokens_usage_def Let_def)
qed

lemma update_tokens_usage_first:
  assumes "model_name \<noteq> ''overall_cost''"
    and "tokens_usage_file w = None \<or> tokens_usage_file w = Some Map.empty"
  shows "update_tokens_usage model_name p c w =
           (Inr (), w\<lparr>COST_RATES := (COST_RATES w)(model_name \<mapsto> rate_of (COST_RATES w) model_name),
              tokens_usage_file :=
              Some (Map.empty(model_name \<mapsto> Usage p c,
                    ''overall_cost'' \<mapsto> Number (of_int p * prompt_token_cost (rate_of (COST_RATES w) model_name)
                        + of_int c * completion_token_cost (rate_of (COST_RATES w) model_name))))\<rparr>)"
proof (cases "COST_RATES w model_name")
  case None
  with assms show ?thesis
    by (auto simp add: update_tokens_usage_def Let_def rate_of_def)
next
  case (Some r)
  then have "(COST_RATES w)(model_name \<mapsto> r) = COST_RATES w"
    by (simp add: fun_upd_idem)
  with Some assms show ?thesis
    by (auto simp add: update_tokens_usage_def Let_def rate_of_def)
qed

lemma update_tokens_usage_all_step:
  assumes "model_name \<noteq> ''overall_cost''"
    and "tokens_usage_file w = Some (Map.empty(model_name \<mapsto> Usage P C, ''overall_cost'' \<mapsto> Number X))"
    and "COST_RATES w model_name = Some r"
  shows "update_tokens_usage_all model_name calls w =
           (Inr (), w\<lparr>tokens_usage_file :=
              Some (Map.empty(model_name \<mapsto> Usage (P + sum_list (map fst calls)) (C + sum_list (map snd calls)),
                    ''overall_cost'' \<mapsto> Number (X + of_int (sum_list (map fst calls)) * prompt_token_cost r
                        + of_int (sum_list (map snd calls)) * completion_token_cost r)))\<rparr>)"
  using assms
proof (induction calls arbitrary: w P C X)
  case Nil
  then have "w\<lparr>tokens_usage_file := tokens_usage_file w\<rparr> = w" by simp
  with Nil show ?case by simp
next
  case (Cons call calls)
  obtain p c where call: "call = (p, c)" by (cases call)
  let ?w = "w\<lparr>tokens_usage_file :=
              Some (Map.empty(model_name \<mapsto> Usage (P + p) (C + c),
                    ''overall_cost'' \<mapsto> Number (X + of_int p * prompt_token_cost r
                                                  + of_int c * completion_token_cost r)))\<rparr>"
  have one: "update_tokens_usage model_name p c w = (Inr (), ?w)"
    by (rule update_tokens_usage_step [OF Cons.prems])
  have fl: "tokens_usage_file ?w = Some (Map.empty(model_name \<mapsto> Usage (P + p) (C + c),
                    ''overall_cost'' \<mapsto> Number (X + of_int p * prompt_token_cost r
                                                  + of_int c * completion_token_cost r)))"
    by simp
  have rates: "COST_RATES ?w model_name = Some r" using Cons.prems(3) by simp
  have "update_tokens_usage_all model_name (call # calls) w = update_tokens_usage_all model_name calls ?w"
    using one call by simp
  also note Cons.IH [OF Cons.prems(1) fl rates]
  finally show ?case
    by (simp add: call algebra_simps)
qed

lemma update_tokens_usage_cumulative:
  assumes "model_name \<noteq> ''overall_cost''"
    and "tokens_usage_file w = None \<or> tokens_usage_file w = Some Map.empty"
    and "calls \<noteq> []"
  shows "update_tokens_usage_all model_name calls w =
           (Inr (), w\<lparr>COST_RATES := (COST_RATES w)(model_name \<mapsto> rate_of (COST_RATES w) model_name),
              tokens_usage_file :=
              Some (Map.empty(model_name \<mapsto> Usage (sum_list (map fst calls)) (sum_list (map snd calls)),
                    ''overall_cost'' \<mapsto> Number
                      (of_int (sum_list (map fst calls)) * prompt_token_cost (rate_of (COST_RATES w) model_name)
                       + of_int (sum_list (map snd calls)) * completion_token_cost (rate_of (COST_RATES w) model_name))))\<rparr>)"
proof -
  from assms(3) obtain p c rest where calls: "calls = (p, c) # rest"
    by (cases calls) auto
  let ?r = "rate_of (COST_RATES w) model_name"
  let ?w = "w\<lparr>COST_RATES := (COST_RATES w)(model_name \<mapsto> ?r),
              tokens_usage_file :=
              Some (Map.empty(model_name \<mapsto> Usage p c,
                    ''overall_cost'' \<mapsto> Number (of_int p * prompt_token_cost ?r
                        + of_int c * completion_token_cost ?r)))\<rparr>"
  have one: "update_tokens_usage model_name p c w = (Inr (), ?w)"
    by (rule update_tokens_usage_first [OF assms(1,2)])
  have fl: "tokens_usage_file ?w = Some (Map.empty(model_name \<mapsto> Usage p c,
                    ''overall_cost'' \<mapsto> Number (of_int p * prompt_token_cost ?r
                        + of_int c * completion_token_cost ?r)))"
    by simp
  have rates: "COST_RATES ?w model_name = Some ?r" by simp
  have "update_tokens_usage_all model_name calls w = update_tokens_usage_all model_name rest ?w"
    using one calls by simp
  also note update_tokens_usage_all_step [OF assms(1) fl rates]
  finally show ?thesis
    by (simp add: calls algebra_simps)
qed

lemma update_tokens_usage_raises_file:
  "update_tokens_usage model_name prompt_tokens completion_tokens w = (Inl e, w') \<Longrightarrow>
   tokens_usage_file w' = tokens_usage_file w"
  by (auto simp add: update_tokens_usage_def Let_def split: option.splits json_value.splits)

lemma update_tokens_usage_returns_file:
  assumes "update_tokens_usage model_name prompt_tokens completion_tokens w = (Inr u, w')"
  shows "\<exists>doc. tokens_usage_file w' = Some doc
     \<and> prompt_total (Some doc) model_name = prompt_total (tokens_usage_file w) model_name + prompt_tokens
     \<and> completion_total (Some doc) model_name
         = completion_total (tokens_usage_file w) model_name + completion_tokens
     \<and> (\<forall>m. m \<noteq> model_name \<longrightarrow> prompt_total (Some doc) m = prompt_total (tokens_usage_file w) m
            \<and> completion_total (Some doc) m = completion_total (tokens_usage_file w) m)
     \<and> overall_cost (Some doc) = overall_cost (tokens_usage_file w)
         + of_int prompt_tokens * prompt_token_cost (rate_of (COST_RATES w) model_name)
         + of_int completion_tokens * completion_token_cost (rate_of (COST_RATES w) model_name)"
proof -
  define loaded where "loaded = (case tokens_usage_file w of Some doc \<Rightarrow> doc | None \<Rightarrow> Map.empty)"
  have totals: "prompt_total (tokens_usage_file w) m = prompt_total (Some loaded) m"
    "completion_total (tokens_usage_file w) m = completion_total (Some loaded) m"
    "overall_cost (tokens_usage_file w) = overall_cost (Some loaded)" for m
    by (simp_all add: loaded_def prompt_total_def completion_total_def overall_cost_def split: option.splits)
  have r: "(case (case COST_RATES w model_name of
                     None \<Rightarrow> (COST_RATES w)(model_name \<mapsto> \<lparr>prompt_token_cost = 0, completion_token_cost = 0\<rparr>)
                   | Some _ \<Rightarrow> COST_RATES w) model_name of
               Some r \<Rightarrow> r
             | None \<Rightarrow> \<lparr>prompt_token_cost = 0, completion_token_cost = 0\<rparr>) = rate_of (COST_RATES w) model_name"
    by (simp add: rate_of_def split: option.splits)
  from assms have ne: "model_name \<noteq> ''overall_cost''"
    by (auto simp add: update_tokens_usage_def Let_def split: option.splits json_value.splits if_splits)
  show ?thesis
    using assms ne unfolding update_tokens_usage_def Let_def r totals loaded_def [symmetric]
    by (cases "loaded model_name"; cases "loaded ''overall_cost''")
       (auto simp add: prompt_total_def completion_total_def overall_cost_def
          split: json_value.splits)
qed

text \<open>
  Claim C6, at the model name \<^verbatim>\<open>overall_cost\<close>. The name is also the key of the running
  cost, in the same JSON object. On an empty document \<^verbatim>\<open>setdefault\<close> stores the model's
  counters under that key, and the sum on line 47 then adds a number to them and raises a
  \<^verbatim>\<open>TypeError\<close> before the file is written. After the calls \<open>+10/+5\<close> and \<open>+3/+2\<close> for
  this model the file still does not exist, so the document holds no sums. For every
  other model name the token sums are as the claim says, and so is the cost in exact
  arithmetic (\<open>update_tokens_usage_cumulative\<close>, \<open>update_tokens_usage_example\<close>); the
  rounding of the running float sum is not modelled.
\<close>

theorem update_tokens_usage_overall_cost_key:
  "update_tokens_usage ''overall_cost'' 10 5 initial_tracker =
     (Inl (TypeError ''unsupported operand type(s) for +: dict and int''),
      initial_tracker\<lparr>COST_RATES := initial_COST_RATES(''overall_cost'' \<mapsto>
         \<lparr>prompt_token_cost = 0, completion_token_cost = 0\<rparr>)\<rparr>)
   \<and> tokens_usage_file (snd (update_tokens_usage_all ''overall_cost'' [(10, 5), (3, 2)] initial_tracker)) = None
   \<and> prompt_total (tokens_usage_file
        (snd (update_tokens_usage_all ''overall_cost'' [(10, 5), (3, 2)] initial_tracker))) ''overall_cost'' = 0"
  by (simp add: update_tokens_usage_def initial_tracker_def initial_COST_RATES_def prompt_total_def)

lemma update_tokens_usage_overall_cost_raises:
  "tokens_usage_file w = None \<or> tokens_usage_file w = Some Map.empty \<Longrightarrow>
   \<exists>e w'. update_tokens_usage ''overall_cost'' p c w = (Inl e, w') \<and> tokens_usage_file w' = tokens_usage_file w"
  by (auto simp add: update_tokens_usage_def Let_def split: option.splits)

text \<open>
  Claim C7 as stated fails: the counts are Python integers and nothing checks their sign.
  After \<open>+10/+5\<close> for \<^verbatim>\<open>gpt-4o\<close>, a call with \<open>-3/-1\<close> lowers both totals and the cost.
\<close>

theorem update_tokens_usage_negative_counts:
  "prompt_total (tokens_usage_file (snd (update_tokens_usage ''gpt-4o'' (-3) (-1)
       (snd (update_tokens_usage ''gpt-4o'' 10 5 initial_tracker))))) ''gpt-4o''
     < prompt_total (tokens_usage_file (snd (update_tokens_usage ''gpt-4o'' 10 5 initial_tracker))) ''gpt-4o''
   \<and> completion_total (tokens_usage_file (snd (update_tokens_usage ''gpt-4o'' (-3) (-1)
       (snd (update_tokens_usage ''gpt-4o'' 10 5 initial_tracker))))) ''gpt-4o''
     < completion_total (tokens_usage_file (snd (update_tokens_usage ''gpt-4o'' 10 5 initial_tracker))) ''gpt-4o''
   \<and> overall_cost (tokens_usage_file (snd (update_tokens_usage ''gpt-4o'' (-3) (-1)
       (snd (update_tokens_usage ''gpt-4o'' 10 5 initial_tracker)))))
     < overall_cost (tokens_usage_file (snd (update_tokens_usage ''gpt-4o'' 10 5 initial_tracker)))"
  by (simp add: update_tokens_usage_def initial_tracker_def initial_COST_RATES_def
        prompt_total_def completion_total_def overall_cost_def)

lemma rates_nonneg_initial: "rates_nonneg initial_COST_RATES model_name"
  by (simp add: rates_nonneg_def initial_COST_RATES_def)

text \<open>
  Claim C7, as amended. A call whose two token counts are not negative, for a model whose
  configured rates are not negative, leaves every model's prompt total, every model's
  completion total and the overall cost at least what they were. This covers the calls
  that raise, which leave the file as it was.
\<close>

theorem update_tokens_usage_monotone:
  assumes "0 \<le> prompt_tokens" and "0 \<le> completion_tokens"
    and "rates_nonneg (COST_RATES w) model_name"
  shows "prompt_total (tokens_usage_file w) m
           \<le> prompt_total (tokens_usage_file (snd (update_tokens_usage model_name prompt_tokens completion_tokens w))) m
       \<and> completion_total (tokens_usage_file w) m
           \<le> completion_total (tokens_usage_file (snd (update_tokens_usage model_name prompt_tokens completion_tokens w))) m
       \<and> overall_cost (tokens_usage_file w)
           \<le> overall_cost (tokens_usage_file (snd (update_tokens_usage model_name prompt_tokens completion_tokens w)))"
proof -
  obtain res w' where run: "update_tokens_usage model_name prompt_tokens completion_tokens w = (res, w')"
    by (cases "update_tokens_usage model_name prompt_tokens completion_tokens w")
  show ?thesis
  proof (cases res)
    case (Inl e)
    with run have "tokens_usage_file w' = tokens_usage_file w"
      by (simp add: update_tokens_usage_raises_file)
    with run show ?thesis by simp
  next
    case (Inr u)
    have rp: "0 \<le> of_int prompt_tokens * prompt_token_cost (rate_of (COST_RATES w) model_name)"
      and rc: "0 \<le> of_int completion_tokens * completion_token_cost (rate_of (COST_RATES w) model_name)"
      using assms by (auto simp add: rate_of_def rates_nonneg_def split: option.splits)
    from run Inr obtain doc where doc: "tokens_usage_file w' = Some doc"
      and p: "prompt_total (Some doc) model_name = prompt_total (tokens_usage_file w) model_name + prompt_tokens"
      and c: "completion_total (Some doc) model_name
                = completion_total (tokens_usage_file w) model_name + completion_tokens"
      and others: "\<forall>m. m \<noteq> model_name \<longrightarrow> prompt_total (Some doc) m = prompt_total (tokens_usage_file w) m
            \<and> completion_total (Some doc) m = completion_total (tokens_usage_file w) m"
      and cost: "overall_cost (Some doc) = overall_cost (tokens_usage_file w)
         + of_int prompt_tokens * prompt_token_cost (rate_of (COST_RATES w) model_name)
         + of_int completion_tokens * completion_token_cost (rate_of (COST_RATES w) model_name)"
      using update_tokens_usage_returns_file [of model_name prompt_tokens completion_tokens w u w']
      by auto
    have "prompt_total (tokens_usage_file w) m \<le> prompt_total (Some doc) m"
      using p others assms(1) by (cases "m = model_name") simp_all
    moreover have "completion_total (tokens_usage_file w) m \<le> completion_total (Some doc) m"
      using c others assms(2) by (cases "m = model_name") simp_all
    moreover have "overall_cost (tokens_usage_file w) \<le> overall_cost (Some doc)"
      using cost rp rc by simp
    ultimately show ?thesis using run doc by simp
  qed
qed

theorem update_tokens_usage_monotone_witness:
  "(0::int) \<le> 3 \<and> (0::int) \<le> 2 \<and> rates_nonneg (COST_RATES initial_tracker) ''gpt-4o''
   \<and> prompt_total (tokens_usage_file initial_tracker) ''gpt-4o''
        \<le> prompt_total (tokens_usage_file (snd (update_tokens_usage ''gpt-4o'' 3 2 initial_tracker))) ''gpt-4o''
   \<and> prompt_total (tokens_usage_file (snd (update_tokens_usage ''gpt-4o'' 3 2 initial_tracker))) ''gpt-4o'' = 3
   \<and> overall_cost (tokens_usage_file (snd (update_tokens_usage ''gpt-4o'' 3 2 initial_tracker))) = 405 / 10000000"
proof -
  have a: "(0::int) \<le> 3" and b: "(0::int) \<le> 2" by simp_all
  have c: "rates_nonneg (COST_RATES initial_tracker) ''gpt-4o''"
    by (simp add: rates_nonneg_def initial_tracker_def initial_COST_RATES_def)
  from update_tokens_usage_monotone [OF a b c, of "''gpt-4o''"] c show ?thesis
    by (simp add: update_tokens_usage_def initial_tracker_def initial_COST_RATES_def
        prompt_total_def overall_cost_def)
qed

lemma rates_nonneg_update_tokens_usage:
  "rates_nonneg (COST_RATES w) m \<Longrightarrow>
   rates_nonneg (COST_RATES (snd (update_tokens_usage model_name prompt_tokens completion_tokens w))) m"
  by (auto simp add: update_tokens_usage_def Let_def rates_nonneg_def split: option.splits json_value.splits)

lemma update_tokens_usage_example:
  "fst (update_tokens_usage_all ''gpt-4o'' [(10, 5), (3, 2)] initial_tracker) = Inr ()
   \<and> prompt_total (tokens_usage_file
        (snd (update_tokens_usage_all ''gpt-4o'' [(10, 5), (3, 2)] initial_tracker))) ''gpt-4o'' = 13
   \<and> completion_total (tokens_usage_file
        (snd (update_tokens_usage_all ''gpt-4o'' [(10, 5), (3, 2)] initial_tracker))) ''gpt-4o'' = 7
   \<and> overall_cost (tokens_usage_file
        (snd (update_tokens_usage_all ''gpt-4o'' [(10, 5), (3, 2)] initial_tracker)))
      = 13 * (0.0045 / 1000) + 7 * (0.0135 / 1000)"
  by (simp add: update_tokens_usage_def initial_tracker_def initial_COST_RATES_def
        prompt_total_def completion_total_def overall_cost_def)

section \<open>Properties of the service factory\<close>


















section \<open>Properties of construction and image requests\<close>

text \<open>
  Claim C8, at the temperature NaN. NaN is not between 0 and 2, but both comparisons of
  the check are false for it, so the constructors do not raise: the Azure constructor
  loads the environment, builds its client and returns a service whose temperature is
  NaN, and the Hugging Face constructor makes its network call. Every other temperature
  outside the range, and every \<open>max_tokens\<close> below 1, is refused before anything else
  happens (\<open>construction_rejects_bad_parameters\<close>, \<open>outside_range_not_nan\<close>).
\<close>

theorem construction_accepts_nan_temperature:
  "AzureOpenAIService ''gpt-4o'' NaN 4096 fresh_world
     = (Inr ((azure_service ''gpt-4o'')\<lparr>self_temperature := NaN\<rparr>),
        fresh_world\<lparr>environ := dotenv fresh_world\<rparr>)
   \<and> fst (HuggingFaceService ''HuggingFaceH4/zephyr-7b-beta'' NaN 4096 fresh_world)
     = Inr ((hf_service ''HuggingFaceH4/zephyr-7b-beta'')\<lparr>self_temperature := NaN\<rparr>)
   \<and> requests (snd (HuggingFaceService ''HuggingFaceH4/zephyr-7b-beta'' NaN 4096 fresh_world))
     = [ListDeployedModels None]"
  by (simp add: AzureOpenAIService_def HuggingFaceService_def LLMService_init_def
      AzureOpenAIService_initialize_client_def HuggingFaceService_initialize_client_def
      HuggingFaceService_get_available_models_def fresh_world_def azure_service_def hf_service_def
      map_add_def)

lemma construction_rejects_bad_parameters:
  assumes "lt temperature (Finite 0) \<or> lt (Finite 2) temperature \<or> max_tokens < 1"
  shows "(\<exists>msg. AzureOpenAIService model_name temperature max_tokens w = (Inl (ValueError msg), w))
       \<and> (\<exists>msg. HuggingFaceService model_name temperature max_tokens w = (Inl (ValueError msg), w))
       \<and> (\<exists>msg. OpenAIService initialize_client model_name temperature max_tokens w
                   = (Inl (ValueError msg), w))"
  using assms
  by (auto simp add: AzureOpenAIService_def HuggingFaceService_def OpenAIService_def LLMService_init_def)

lemma outside_range_not_nan:
  "temperature \<noteq> NaN \<Longrightarrow>
   (lt temperature (Finite 0) \<or> lt (Finite 2) temperature)
     = (\<not> (\<exists>x. temperature = Finite x \<and> 0 \<le> x \<and> x \<le> 2))"
  by (cases temperature) auto

lemma construction_rejects_examples:
  "AzureOpenAIService ''gpt-4o'' (Finite (5 / 2)) 4096 fresh_world
        = (Inl (ValueError ''Temperature must be between 0 and 2.''), fresh_world)
   \<and> AzureOpenAIService ''gpt-4o'' PosInf 4096 fresh_world
        = (Inl (ValueError ''Temperature must be between 0 and 2.''), fresh_world)
   \<and> HuggingFaceService ''HuggingFaceH4/zephyr-7b-beta'' (Finite 1) 0 fresh_world
        = (Inl (ValueError ''Max tokens must be greater than 0.''), fresh_world)
   \<and> OpenAIService (\<lambda>m w. (Inr (OpenAIClient m), w\<lparr>requests := [ListDeployedModels None]\<rparr>))
        ''gpt-4o-mini'' (Finite (- 1)) 4096 fresh_world
        = (Inl (ValueError ''Temperature must be between 0 and 2.''), fresh_world)"
  by (simp add: AzureOpenAIService_def HuggingFaceService_def OpenAIService_def LLMService_init_def)

lemma get_service_rejects_bad_parameters:
  assumes "lt temperature (Finite 0) \<or> lt (Finite 2) temperature \<or> max_tokens < 1"
    and "services w (model_name, provider, temperature, max_tokens) = None"
  shows "\<exists>msg. get_service openai_initialize_client model_name provider temperature max_tokens w
           = (Inl (ValueError msg), w)"
  using assms
  by (auto simp add: get_service_def Let_def register_def AzureOpenAIService_def HuggingFaceService_def
      OpenAIService_def LLMService_init_def)

lemma construction_accepts_good_parameters:
  "fst (AzureOpenAIService ''gpt-4o'' (Finite 2) 1 fresh_world) = Inr ((azure_service ''gpt-4o'')
     \<lparr>self_temperature := Finite 2, self_max_tokens := 1\<rparr>)"
  by (simp add: AzureOpenAIService_def LLMService_init_def AzureOpenAIService_initialize_client_def
      fresh_world_def azure_service_def map_add_def)

text \<open>
  Claim C9. On the Azure service a model name outside the three vision models makes
  \<^verbatim>\<open>make_request_image\<close> raise the \<^verbatim>\<open>ValueError\<close> about vision capabilities; on the
  Hugging Face service it raises \<^verbatim>\<open>NotImplementedError\<close> for every input. In both cases
  the world is unchanged, so no file is read and no network call is made, and the retry
  wrapper is not entered.
\<close>

theorem make_request_image_without_vision:
  "(self_model_name self \<notin> {''gpt-4o'', ''gpt-4o-mini'', ''gpt-4-turbo''} \<longrightarrow>
      AzureOpenAIService_make_request_image self messages image_path w = (Inl vision_error, w, []))
   \<and> HuggingFaceService_make_request_image self' messages image_path w =
       (Inl (NotImplementedError ''Method `make_request_image` is not implemented for HuggingFace models.''),
        w, [])"
  by (simp add: AzureOpenAIService_make_request_image_def HuggingFaceService_make_request_image_def
      vision_models_def)

theorem make_request_image_without_vision_witness:
  "self_model_name (azure_service ''gpt-35-turbo'') \<notin> {''gpt-4o'', ''gpt-4o-mini'', ''gpt-4-turbo''}
   \<and> AzureOpenAIService_make_request_image (azure_service ''gpt-35-turbo'')
        [\<lparr>role = ''user'', content = Text ''Describe the image.''\<rparr>] ''cat.jpg''
        (fresh_world\<lparr>image_files := Map.empty(''cat.jpg'' \<mapsto> ''aGk='')\<rparr>)
      = (Inl vision_error, fresh_world\<lparr>image_files := Map.empty(''cat.jpg'' \<mapsto> ''aGk='')\<rparr>, [])
   \<and> requests (fst (snd (AzureOpenAIService_make_request_image (azure_service ''gpt-35-turbo'')
        [\<lparr>role = ''user'', content = Text ''Describe the image.''\<rparr>] ''cat.jpg''
        (fresh_world\<lparr>image_files := Map.empty(''cat.jpg'' \<mapsto> ''aGk='')\<rparr>)))) = []"
proof -
  have a: "self_model_name (azure_service ''gpt-35-turbo'') \<notin> {''gpt-4o'', ''gpt-4o-mini'', ''gpt-4-turbo''}"
    by (simp add: azure_service_def)
  from make_request_image_without_vision [THEN conjunct1, rule_format, OF a] a
  show ?thesis by (simp add: fresh_world_def)
qed

section \<open>Properties of tool requests\<close>

lemma retry_request_default_first_success:
  assumes "func w = (Inr v, w')"
  shows "retry_request_default func w = (Inr (Some v), w', [Print ''!'', Call])"
proof -
  have out: "outcomes func (Suc (length ([] :: py_exception list))) w = map Inl [] @ [Inr v]"
    using assms by simp
  have less: "0 + int (length ([] :: py_exception list)) < 3" by simp
  have exns: "list_all is_Exception []" by simp
  have slept: "([] :: py_exception list) = [] \<or> sleep (Finite (1 / 2)) = Inr ()" by simp
  show ?thesis
    unfolding retry_request_default_def retry_request_def
    using retry_loop_succeeds [OF out exns slept less, of "[Print ''!'']"] assms by simp
qed







lemma update_tokens_usage_succeeds:
  assumes "model_name \<noteq> ''overall_cost''"
    and "tokens_usage_file w = None
         \<or> (\<exists>doc. tokens_usage_file w = Some doc
               \<and> (doc model_name = None \<or> (\<exists>p c. doc model_name = Some (Usage p c)))
               \<and> (doc ''overall_cost'' = None \<or> (\<exists>cost. doc ''overall_cost'' = Some (Number cost))))"
  shows "fst (update_tokens_usage model_name prompt_tokens completion_tokens w) = Inr ()"
  using assms
  by (auto simp add: update_tokens_usage_def Let_def split: option.splits json_value.splits)






lemma hf_parallel_tool_calls_refused:
  "HuggingFaceService_make_request_with_tools self messages tools True return_only_tool_response w
     = (Inl (ValueError ''Hugging Face models do not support parallel tool calls.''), w, [])"
  by (simp add: HuggingFaceService_make_request_with_tools_def)

lemma json_mode_messages_unchanged: "json_mode_messages messages = Inr messages"
  by (simp add: json_mode_messages_def)

lemma no_json_word: "\<not> in_content ''json'' (Text ''Reply briefly.'') \<and> \<not> in_content ''JSON'' (Text ''Reply briefly.'')"
  by (simp add: in_content_def sublist_Cons_right)

section \<open>The JSON instruction of the Azure service\<close>

text \<open>
  Claim C2, at a first message that contains neither \<^verbatim>\<open>json\<close> nor \<^verbatim>\<open>JSON\<close>. The claim
  has the instruction appended before the request is sent; the request that
  \<^verbatim>\<open>make_request_json\<close> sends carries the message as it was given. The condition on
  line 52 is false for every input (\<open>json_mode_messages_unchanged\<close>).
\<close>

theorem make_request_json_sends_messages_unchanged:
  "\<not> in_content ''json'' (Text ''Reply briefly.'') \<and> \<not> in_content ''JSON'' (Text ''Reply briefly.'')
   \<and> fst (AzureOpenAIService_make_request_json (azure_service ''gpt-4o'')
        [\<lparr>role = ''system'', content = Text ''Reply briefly.''\<rparr>] ''{}''
        (fresh_world\<lparr>replies := [Inr \<lparr>message_content = Some ''{}'', message_tool_calls = None,
            usage_prompt_tokens = 10, usage_completion_tokens = 5\<rparr>]\<rparr>)) = Inr (PyStr ''{}'')
   \<and> requests (fst (snd (AzureOpenAIService_make_request_json (azure_service ''gpt-4o'')
        [\<lparr>role = ''system'', content = Text ''Reply briefly.''\<rparr>] ''{}''
        (fresh_world\<lparr>replies := [Inr \<lparr>message_content = Some ''{}'', message_tool_calls = None,
            usage_prompt_tokens = 10, usage_completion_tokens = 5\<rparr>]\<rparr>))))
       = [ChatCompletions
            \<lparr>rq_client = AzureOpenAI ''2023-05-15'' ''k'' ''https://e'', rq_model = Some ''gpt-4o'',
             rq_messages = [\<lparr>role = ''system'', content = Text ''Reply briefly.''\<rparr>],
             rq_max_tokens = 4096, rq_temperature = Finite 1,
             rq_response_format = Some JsonObject, rq_tools = None\<rparr>]"
proof -
  let ?m = "\<lparr>role = ''system'', content = Text ''Reply briefly.''\<rparr>"
  let ?w = "fresh_world\<lparr>replies := [Inr \<lparr>message_content = Some ''{}'', message_tool_calls = None,
            usage_prompt_tokens = 10, usage_completion_tokens = 5\<rparr>]\<rparr>"
  let ?call = "api_call ((azure_request (azure_service ''gpt-4o'') [?m])\<lparr>rq_response_format := Some JsonObject\<rparr>)
      (self_model_name (azure_service ''gpt-4o'')) (\<lambda>resp. str_value (message_content resp))"
  have words: "\<not> in_content ''json'' (Text ''Reply briefly.'') \<and> \<not> in_content ''JSON'' (Text ''Reply briefly.'')"
    by (simp add: in_content_def sublist_Cons_right)
  have val: "fst (?call ?w) = Inr (PyStr ''{}'')"
    by (simp add: api_call_def chat_completion_def update_tokens_usage_def fresh_world_def
        initial_COST_RATES_def azure_service_def azure_request_def str_value_def)
  have req: "requests (snd (?call ?w)) = [ChatCompletions
            \<lparr>rq_client = AzureOpenAI ''2023-05-15'' ''k'' ''https://e'', rq_model = Some ''gpt-4o'',
             rq_messages = [?m], rq_max_tokens = 4096, rq_temperature = Finite 1,
             rq_response_format = Some JsonObject, rq_tools = None\<rparr>]"
    by (simp add: api_call_def chat_completion_def update_tokens_usage_def fresh_world_def
        initial_COST_RATES_def azure_service_def azure_request_def str_value_def)
  from val have "?call ?w = (Inr (PyStr ''{}''), snd (?call ?w))"
    by (simp add: prod_eq_iff)
  from retry_request_default_first_success [of ?call ?w, OF this]
  have "AzureOpenAIService_make_request_json (azure_service ''gpt-4o'') [?m] ''{}'' ?w
          = (Inr (PyStr ''{}''), snd (?call ?w), [Print ''!'', Call])"
    by (simp add: AzureOpenAIService_make_request_json_def json_mode_messages_def returned_def)
  with words req show ?thesis by simp
qed

lemma make_request_image_with_vision:
  "fst (AzureOpenAIService_make_request_image (azure_service ''gpt-4o'')
        [\<lparr>role = ''user'', content = Text ''Describe the image.''\<rparr>] ''cat.jpg''
        (fresh_world\<lparr>image_files := Map.empty(''cat.jpg'' \<mapsto> ''aGk=''),
           replies := [Inr \<lparr>message_content = Some ''A cat.'', message_tool_calls = None,
            usage_prompt_tokens = 10, usage_completion_tokens = 5\<rparr>]\<rparr>)) = Inr (PyStr ''A cat.'')
   \<and> requests (fst (snd (AzureOpenAIService_make_request_image (azure_service ''gpt-4o'')
        [\<lparr>role = ''user'', content = Text ''Describe the image.''\<rparr>] ''cat.jpg''
        (fresh_world\<lparr>image_files := Map.empty(''cat.jpg'' \<mapsto> ''aGk=''),
           replies := [Inr \<lparr>message_content = Some ''A cat.'', message_tool_calls = None,
            usage_prompt_tokens = 10, usage_completion_tokens = 5\<rparr>]\<rparr>))))
       = [ChatCompletions
            \<lparr>rq_client = AzureOpenAI ''2023-05-15'' ''k'' ''https://e'', rq_model = Some ''gpt-4o'',
             rq_messages = [\<lparr>role = ''user'', content = Parts [TextPart (Text ''Describe the image.''),
                ImageUrlPart ''data:image/jpeg;base64,aGk='']\<rparr>],
             rq_max_tokens = 4096, rq_temperature = Finite 1,
             rq_response_format = None, rq_tools = None\<rparr>]"
proof -
  let ?m = "\<lparr>role = ''user'', content = Parts [TextPart (Text ''Describe the image.''),
                ImageUrlPart ''data:image/jpeg;base64,aGk='']\<rparr>"
  let ?w = "fresh_world\<lparr>image_files := Map.empty(''cat.jpg'' \<mapsto> ''aGk=''),
           replies := [Inr \<lparr>message_content = Some ''A cat.'', message_tool_calls = None,
            usage_prompt_tokens = 10, usage_completion_tokens = 5\<rparr>]\<rparr>"
  let ?call = "api_call (azure_request (azure_service ''gpt-4o'') [?m])
      (self_model_name (azure_service ''gpt-4o'')) (\<lambda>resp. str_value (message_content resp))"
  have val: "fst (?call ?w) = Inr (PyStr ''A cat.'')"
    by (simp add: api_call_def chat_completion_def update_tokens_usage_def fresh_world_def
        initial_COST_RATES_def azure_service_def azure_request_def str_value_def)
  have req: "requests (snd (?call ?w)) = [ChatCompletions
            \<lparr>rq_client = AzureOpenAI ''2023-05-15'' ''k'' ''https://e'', rq_model = Some ''gpt-4o'',
             rq_messages = [?m], rq_max_tokens = 4096, rq_temperature = Finite 1,
             rq_response_format = None, rq_tools = None\<rparr>]"
    by (simp add: api_call_def chat_completion_def update_tokens_usage_def fresh_world_def
        initial_COST_RATES_def azure_service_def azure_request_def str_value_def)
  from val have "?call ?w = (Inr (PyStr ''A cat.''), snd (?call ?w))"
    by (simp add: prod_eq_iff)
  from retry_request_default_first_success [of ?call ?w, OF this]
  have "AzureOpenAIService_make_request_image (azure_service ''gpt-4o'')
          [\<lparr>role = ''user'', content = Text ''Describe the image.''\<rparr>] ''cat.jpg'' ?w
          = (Inr (PyStr ''A cat.''), snd (?call ?w), [Print ''!'', Call])"
    by (simp add: AzureOpenAIService_make_request_image_def vision_models_def encode_image_def
        returned_def azure_service_def)
  with req show ?thesis by simp
qed

end
